theory Spec2Isabelle
  imports Complex_Main "HOL-Library.Monad_Syntax"
begin

section \<open>The catalogue of spherical test functions (include/functions.h)\<close>

text \<open>
  The header is a collection of pure function templates \<open>Float f(Float theta, Float phi)\<close>.
  The embedding is over the reals: \<open>Float\<close> is \<^typ>\<open>real\<close>, every arithmetic operator is the
  exact one, and \<open>std::sin\<close>, \<open>std::cos\<close>, \<open>std::tanh\<close>, \<open>std::exp\<close>, \<open>std::atan\<close>,
  \<open>std::sqrt\<close> and \<open>std::abs\<close> are the real functions they compute. A decimal literal such as
  \<open>5.4f\<close> is the rational it writes. Rounding is not modelled.

  A result that is not a real number (the quotient by zero, \<open>std::pow\<close> outside its domain)
  is \<^const>\<open>None\<close>; the functions that contain such an operation on a value that depends on
  the input return \<^typ>\<open>real option\<close>.
\<close>

subsection \<open>Macros\<close>

text \<open>
  \<open>#define F_PI 3.14159265358979323846f\<close> and \<open>#define F_PI_2 1.570796327f\<close>. Like every
  other literal, each macro is the rational its digits write: \<open>F_PI\<close> is not \<open>\<pi>\<close>, and
  \<open>F_PI_2\<close> is not the half of \<open>F_PI\<close>.
\<close>

definition F_PI :: real where
  "F_PI = 3.14159265358979323846"

definition F_PI_2 :: real where
  "F_PI_2 = 1.570796327"


subsection \<open>Internal helper functions\<close>

definition spherical_to_xyz :: "real \<Rightarrow> real \<Rightarrow> real \<times> real \<times> real" where
  "spherical_to_xyz theta phi =
     (let x = sin theta * cos phi;
          y = sin theta * sin phi;
          z = cos theta
      in (x, y, z))"

text \<open>
  \<open>template <typename T> int sgn(T val) { return (T(0) < val) - (val < T(0)); }\<close>:
  the difference of two comparisons, each read as 0 or 1. The template only needs a zero
  and the operator \<open><\<close> of \<open>T\<close>.
\<close>

definition sgn_c :: "'a::{zero,ord} \<Rightarrow> int" where
  "sgn_c val = of_bool (0 < val) - of_bool (val < 0)"

definition dot :: "real \<Rightarrow> real \<Rightarrow> real \<Rightarrow> real \<Rightarrow> real \<Rightarrow> real \<Rightarrow> real" where
  "dot x1 y1 z1 x2 y2 z2 = x1 * x2 + y1 * y2 + z1 * z2"

subsection \<open>Operations that need not yield a real number\<close>

text \<open>The quotient of two reals; there is none when the divisor is zero.\<close>

definition fdiv :: "real \<Rightarrow> real \<Rightarrow> real option" where
  "fdiv a b = (if b = 0 then None else Some (a / b))"

text \<open>
  \<open>std::pow\<close> of \<open><cmath>\<close> on finite arguments: a pole at a zero base with a negative
  exponent, a domain error at a negative base with an exponent that is not an integer,
  the integer power when the exponent is an integer, and \<open>exp (e * ln b)\<close> otherwise.
\<close>

definition pow_c :: "real \<Rightarrow> real \<Rightarrow> real option" where
  "pow_c b e =
     (if b = 0 \<and> e < 0 then None
      else if e \<in> \<int> then Some (b powi \<lfloor>e\<rfloor>)
      else if b < 0 then None
      else Some (b powr e))"

text \<open>
  A value of a floating-point type as far as \<open>sgn\<close> can tell: a number or a NaN. The
  comparison follows IEEE 754: it is false as soon as one side is a NaN.
\<close>

datatype fp = Num real | NaN

instantiation fp :: "{zero,ord}"
begin

definition zero_fp :: fp where
  "zero_fp = Num 0"

definition less_fp :: "fp \<Rightarrow> fp \<Rightarrow> bool" where
  "less_fp a b = (case (a, b) of (Num u, Num v) \<Rightarrow> u < v | _ \<Rightarrow> False)"

definition less_eq_fp :: "fp \<Rightarrow> fp \<Rightarrow> bool" where
  "less_eq_fp a b = (case (a, b) of (Num u, Num v) \<Rightarrow> u \<le> v | _ \<Rightarrow> False)"

instance ..

end

subsection \<open>Functions from the literature\<close>

definition fornberg_f1 :: "real \<Rightarrow> real \<Rightarrow> real" where
  "fornberg_f1 theta phi =
     (let (x, y, z) = spherical_to_xyz theta phi
      in 1 + x + y * y + x * x * y + x * x * x * x + y * y * y * y * y
           + x * x * y * y * z * z)"

definition fornberg_f4 :: "real \<Rightarrow> real \<Rightarrow> real" where
  "fornberg_f4 theta phi =
     (let (x, y, z) = spherical_to_xyz theta phi
      in (1 + real_of_int (sgn_c (- 9 * x - 9 * y + 9 * z))) / 9)"

definition beentjes_f3 :: "real \<Rightarrow> real \<Rightarrow> real" where
  "beentjes_f3 theta phi =
     (let alpha = 9;
          (x, y, z) = spherical_to_xyz theta phi
      in (1 + tanh (- alpha * x - alpha * y + alpha * z)) / alpha)"

definition beentjes_f4 :: "real \<Rightarrow> real \<Rightarrow> real" where
  "beentjes_f4 theta phi =
     (let alpha = 9;
          (x, y, z) = spherical_to_xyz theta phi
      in (1 - real_of_int (sgn_c (x + y - z))) / alpha)"

definition beentjes_f5 :: "real \<Rightarrow> real \<Rightarrow> real" where
  "beentjes_f5 theta phi =
     (let alpha = 9;
          (x, y, z) = spherical_to_xyz theta phi
      in (1 - real_of_int (sgn_c (F_PI * x + y))) / alpha)"

definition renka_f3 :: "real \<Rightarrow> real \<Rightarrow> real option" where
  "renka_f3 theta phi =
     (let (x, y, z) = spherical_to_xyz theta phi
      in map_option abs
           (fdiv ((1.25 + cos (5.4 * y)) * cos (6 * z))
                 (6 + 6 * (3 * x - 1) * (3 * x - 1))))"

definition renka_f4 :: "real \<Rightarrow> real \<Rightarrow> real option" where
  "renka_f4 theta phi =
     (let (x, y, z) = spherical_to_xyz theta phi
      in do {
           px \<leftarrow> pow_c (x - 0.5) 2;
           py \<leftarrow> pow_c (y - 0.5) 2;
           pz \<leftarrow> pow_c (z - 0.5) 2;
           Some (exp (- (81 / 16) * (px + py + pz)) / 3)
         })"

definition renka_f5 :: "real \<Rightarrow> real \<Rightarrow> real option" where
  "renka_f5 theta phi =
     (let (x, y, z) = spherical_to_xyz theta phi
      in do {
           px \<leftarrow> pow_c (x - 0.5) 2;
           py \<leftarrow> pow_c (y - 0.5) 2;
           pz \<leftarrow> pow_c (z - 0.5) 2;
           Some (exp (- (81 / 4) * (px + py + pz)) / 3)
         })"

definition reegar_f3 :: "real \<Rightarrow> real \<Rightarrow> real" where
  "reegar_f3 theta phi =
     (let (x, y, z) = spherical_to_xyz theta phi
      in (F_PI_2 + arctan (300 * (z - 9999 / 10000))) / F_PI)"

definition bellet_f4 :: "real \<Rightarrow> real \<Rightarrow> real" where
  "bellet_f4 theta phi =
     (let (x, y, z) = spherical_to_xyz theta phi
      in 0.5 * (1 + real_of_int (sgn_c (x - 0.5))))"

definition reegar_f2 :: "real \<Rightarrow> real \<Rightarrow> real" where
  "reegar_f2 theta phi =
     (let (x, y, z) = spherical_to_xyz theta phi
      in 2 / F_PI * arctan z)"

definition reegar_f4 :: "real \<Rightarrow> real \<Rightarrow> real" where
  "reegar_f4 theta phi =
     (let (x, y, z) = spherical_to_xyz theta phi
      in 0.5 + arctan (1000 * (z - 9999 / (10000 * 2 * sqrt 2))) / F_PI)"

definition franke :: "real \<Rightarrow> real \<Rightarrow> real" where
  "franke theta phi =
     (let (x, y, z) = spherical_to_xyz theta phi
      in 0.75 * exp (- (9 * x - 2) * (9 * x - 2) / 4
                     - (9 * y - 2) * (9 * y - 2) / 4
                     - (9 * z - 2) * (9 * z - 2) / 4)
         + 0.75 * exp (- (9 * x + 1) * (9 * x + 1) / 49
                       - (9 * y + 1) / 10
                       - (9 * z + 1) / 10)
         + 0.5 * exp (- (9 * x - 7) * (9 * x - 7) / 4
                      - (9 * y - 3) * (9 * y - 3) / 4
                      - (9 * z - 5) * (9 * z - 5) / 4)
         - 0.2 * exp (- (9 * x - 4) * (9 * x - 4)
                      - (9 * y - 7) * (9 * y - 7)
                      - (9 * z - 5) * (9 * z - 5)))"

subsection \<open>Custom designed functions\<close>

definition cf_f1 :: "real \<Rightarrow> real \<Rightarrow> real" where
  "cf_f1 theta phi = \<bar>sin (cos (2 * phi) - 2 * theta)\<bar> + \<bar>cos (2 * theta)\<bar>"

definition cf_f2 :: "real \<Rightarrow> real \<Rightarrow> real" where
  "cf_f2 theta phi = \<bar>sin (2 * phi - theta)\<bar> + \<bar>cos (2 * theta)\<bar>"

definition cf_f3 :: "real \<Rightarrow> real \<Rightarrow> real" where
  "cf_f3 theta phi = 1 + sin (5 * phi) / 5"

definition cf_f4 :: "real \<Rightarrow> real \<Rightarrow> real" where
  "cf_f4 theta phi = 1 + cos (5 * phi) / 5 + sin (5 * theta)"

definition cf_f5 :: "real \<Rightarrow> real \<Rightarrow> real" where
  "cf_f5 theta phi =
     exp (2 * dot (sin theta * cos phi) (sin theta * sin phi) (cos theta) (- 1) (- 1) 0.8)
     + exp (1.5 * dot (sin theta * cos phi) (sin theta * sin phi) (cos theta) 1 (- 1) 0.8)
     + exp theta
     + 10 * exp (dot (sin theta * cos phi) (sin theta * sin phi) (cos theta) 0.8 0.3 (- 4) - 1)
     + 4 * \<bar>cos (45 * theta + 45 * phi)\<bar>"

definition cf_f6 :: "real \<Rightarrow> real \<Rightarrow> real" where
  "cf_f6 theta phi = 1 + 0.5 * cos theta + 0.3 * cos (2 * phi)"

definition cf_f7 :: "real \<Rightarrow> real \<Rightarrow> real" where
  "cf_f7 theta phi =
     (let (x, y, z) = spherical_to_xyz theta phi
      in \<bar>cos (3 * x) + sin (2 * y) + 0.5 * z * z\<bar>)"

definition cf_f8 :: "real \<Rightarrow> real \<Rightarrow> real" where
  "cf_f8 theta phi =
     (let (x, y, z) = spherical_to_xyz theta phi
      in \<bar>sin (2 * x) * cos (3 * y) + 0.5 * z * z + 0.3 * sin (5 * x) * cos (4 * z)\<bar>)"

definition cf_f9 :: "real \<Rightarrow> real \<Rightarrow> real" where
  "cf_f9 theta phi =
     (let (x, y, z) = spherical_to_xyz theta phi
      in \<bar>x * x - y * y + 0.5 * x * z - 0.3 * y * z\<bar>)"

definition cf_f10 :: "real \<Rightarrow> real \<Rightarrow> real" where
  "cf_f10 theta phi =
     (let (x, y, z) = spherical_to_xyz theta phi
      in x * x + y * y + z * z + 5 + 2.5 * cos ((theta - F_PI) / 2) * sin (16 * theta))"

definition cf_f11 :: "real \<Rightarrow> real \<Rightarrow> real" where
  "cf_f11 theta phi =
     (let (x, y, z) = spherical_to_xyz theta phi
      in \<bar>sin (10 * x) * cos (12 * y) * sin (15 * z) + cos (20 * x)\<bar>)"

definition cf_f12 :: "real \<Rightarrow> real \<Rightarrow> real" where
  "cf_f12 theta phi =
     (let (x, y, z) = spherical_to_xyz theta phi
      in sin (10 * x) + cos (12 * y) - sin (15 * z) + 0.2 * cos (18 * x) + 3)"

definition cf_f13 :: "real \<Rightarrow> real \<Rightarrow> real" where
  "cf_f13 theta phi =
     (let (x, y, z) = spherical_to_xyz theta phi
      in exp (- sin (5 * x) - cos (6 * y)) + 0.3 * sin (10 * z))"

definition cf_f14 :: "real \<Rightarrow> real \<Rightarrow> real" where
  "cf_f14 theta phi =
     (let (x, y, z) = spherical_to_xyz theta phi
      in exp (- 2 * (x * x + y * y)) * sin (4 * z))"

definition cf_15 :: "real \<Rightarrow> real \<Rightarrow> real" where
  "cf_15 theta phi =
     (let (x, y, z) = spherical_to_xyz theta phi
      in (x * x + y * y) * exp (- 3 * z * z))"

subsection \<open>Gaussian terms\<close>

text \<open>
  The shape in which the description of \<open>franke\<close> is stated, not a function of the header:
  a Gaussian term in three variables with widths \<open>a\<close> and centre \<open>c\<close>, the exponential of
  the negated quadratic form \<open>a\<^sub>x (u - c\<^sub>x)\<^sup>2 + a\<^sub>y (v - c\<^sub>y)\<^sup>2 + a\<^sub>z (w - c\<^sub>z)\<^sup>2\<close>.
\<close>

definition gaussian3 :: "real \<times> real \<times> real \<Rightarrow> real \<times> real \<times> real \<Rightarrow> real \<times> real \<times> real \<Rightarrow> real" where
  "gaussian3 a c p =
     (case (a, c, p) of
        ((ax, ay, az), (cx, cy, cz), (u, v, w)) \<Rightarrow>
          exp (- (ax * (u - cx)\<^sup>2 + ay * (v - cy)\<^sup>2 + az * (w - cz)\<^sup>2)))"

section \<open>The coordinate transform\<close>

lemma spherical_to_xyz_eq:
  "spherical_to_xyz theta phi = (sin theta * cos phi, sin theta * sin phi, cos theta)"
  by (simp add: spherical_to_xyz_def)

lemma unit_sphere:
  "(sin theta * cos phi)\<^sup>2 + (sin theta * sin phi)\<^sup>2 + (cos theta)\<^sup>2 = (1::real)"
proof -
  have "(sin theta * cos phi)\<^sup>2 + (sin theta * sin phi)\<^sup>2
        = (sin theta)\<^sup>2 * ((sin phi)\<^sup>2 + (cos phi)\<^sup>2)"
    by (simp only: power_mult_distrib distrib_left add.commute)
  also have "\<dots> = (sin theta)\<^sup>2"
    by (simp only: sin_cos_squared_add mult_1_right)
  finally show ?thesis
    by simp
qed

lemma sin_shift: "sin (x + 2 * real n * pi) = sin x"
  by (simp add: sin_add)

lemma cos_shift: "cos (x + 2 * real n * pi) = cos x"
  by (simp add: cos_add)

text \<open>
  C1. For all real angles the transform returns
  \<open>(sin \<theta> \<cdot> cos \<phi>, sin \<theta> \<cdot> sin \<phi>, cos \<theta>)\<close>, and the returned point lies on the unit
  sphere: \<open>x\<^sup>2 + y\<^sup>2 + z\<^sup>2 = 1\<close>, exactly over the reals.
\<close>

theorem spherical_to_xyz_unit:
  "spherical_to_xyz theta phi = (sin theta * cos phi, sin theta * sin phi, cos theta)
   \<and> (case spherical_to_xyz theta phi of (x, y, z) \<Rightarrow> x\<^sup>2 + y\<^sup>2 + z\<^sup>2 = 1)"
  using unit_sphere [of theta phi] by (simp add: spherical_to_xyz_eq)

section \<open>The macro \<open>F_PI\<close> against \<open>\<pi>\<close>\<close>







section \<open>The sign helper\<close>

lemma sgn_c_cases:
  fixes v :: "'a::{zero,linorder}"
  shows "sgn_c v = (if 0 < v then 1 else if v < 0 then - 1 else 0)"
  by (auto simp: sgn_c_def)

lemma sgn_c_incomparable:
  fixes w :: "'b::{zero,ord}"
  shows "\<not> 0 < w \<Longrightarrow> \<not> w < 0 \<Longrightarrow> sgn_c w = 0"
  by (simp add: sgn_c_def)

lemma NaN_compares_false: "\<not> NaN < a" "\<not> a < NaN"
  by (simp_all add: less_fp_def split: fp.splits)

text \<open>
  C4. For a value \<open>v\<close> of an ordered numeric type (a linear order with a zero), \<open>sgn\<close>
  returns 1 when \<open>v > 0\<close>, \<open>-1\<close> when \<open>v < 0\<close> and 0 when \<open>v = 0\<close>. For a type whose
  comparison is not total, a value \<open>w\<close> with neither \<open>0 < w\<close> nor \<open>w < 0\<close> gives 0; under
  the IEEE comparison that is the case of a NaN, which compares false on both sides.
\<close>

theorem sgn_c_spec:
  fixes v :: "'a::{zero,linorder}" and w :: "'b::{zero,ord}"
  shows "(0 < v \<longrightarrow> sgn_c v = 1) \<and> (v < 0 \<longrightarrow> sgn_c v = - 1) \<and> (v = 0 \<longrightarrow> sgn_c v = 0)
         \<and> (\<not> 0 < w \<and> \<not> w < 0 \<longrightarrow> sgn_c w = 0)
         \<and> \<not> 0 < NaN \<and> \<not> NaN < 0 \<and> sgn_c NaN = 0"
  by (auto simp: sgn_c_cases sgn_c_incomparable NaN_compares_false)

text \<open>The four cases of C4 at concrete values: 3, \<open>-2\<close>, 0 and a NaN.\<close>

theorem sgn_c_spec_witness:
  "sgn_c (3::int) = 1 \<and> sgn_c (- 2 :: real) = - 1 \<and> sgn_c (0::real) = 0 \<and> sgn_c NaN = 0"
  using sgn_c_spec [of "3::int" NaN] sgn_c_spec [of "- 2::real" NaN] sgn_c_spec [of "0::real" NaN]
  by (simp add: NaN_compares_false)

lemma sgn_c_real: "sgn_c (v::real) = (if 0 < v then 1 else if v < 0 then - 1 else 0)"
  by (auto simp: sgn_c_def)

section \<open>Polynomial and arctangent entries\<close>

text \<open>
  C7. \<open>fornberg_f1 \<theta> \<phi> = 1 + x + y\<^sup>2 + x\<^sup>2y + x\<^sup>4 + y\<^sup>5 + x\<^sup>2y\<^sup>2z\<^sup>2\<close> at
  \<open>(x, y, z) = spherical_to_xyz \<theta> \<phi>\<close>, and \<open>fornberg_f1 0 0 = 1\<close>.
\<close>

theorem fornberg_f1_formula:
  "fornberg_f1 theta phi =
     (case spherical_to_xyz theta phi of
        (x, y, z) \<Rightarrow> 1 + x + y\<^sup>2 + x\<^sup>2 * y + x ^ 4 + y ^ 5 + x\<^sup>2 * y\<^sup>2 * z\<^sup>2)
   \<and> fornberg_f1 0 0 = 1"
  by (simp add: fornberg_f1_def spherical_to_xyz_eq power2_eq_square power4_eq_xxxx power_numeral_reduce)









section \<open>The entries built on the sign helper\<close>

lemma fornberg_f4_values: "fornberg_f4 theta phi \<in> {0, 1 / 9, 2 / 9}"
  by (simp add: fornberg_f4_def spherical_to_xyz_eq sgn_c_real)

lemma beentjes_f4_values: "beentjes_f4 theta phi \<in> {0, 1 / 9, 2 / 9}"
  by (simp add: beentjes_f4_def spherical_to_xyz_eq sgn_c_real)

lemma beentjes_f5_values: "beentjes_f5 theta phi \<in> {0, 1 / 9, 2 / 9}"
  by (simp add: beentjes_f5_def spherical_to_xyz_eq sgn_c_real)

lemma bellet_f4_values: "bellet_f4 theta phi \<in> {0, 1 / 2, 1}"
  by (simp add: bellet_f4_def spherical_to_xyz_eq sgn_c_real)

lemma fornberg_f4_cases:
  "fornberg_f4 theta phi =
     (case spherical_to_xyz theta phi of
        (x, y, z) \<Rightarrow>
          if - 9 * x - 9 * y + 9 * z = 0 then 1 / 9
          else if 0 < - 9 * x - 9 * y + 9 * z then 2 / 9 else 0)"
  by (simp add: fornberg_f4_def spherical_to_xyz_eq sgn_c_real)

lemma beentjes_f4_cases:
  "beentjes_f4 theta phi =
     (case spherical_to_xyz theta phi of
        (x, y, z) \<Rightarrow> if x + y - z = 0 then 1 / 9 else if 0 < x + y - z then 0 else 2 / 9)"
  by (simp add: beentjes_f4_def spherical_to_xyz_eq sgn_c_real)

lemma beentjes_f5_cases:
  "beentjes_f5 theta phi =
     (case spherical_to_xyz theta phi of
        (x, y, z) \<Rightarrow> if F_PI * x + y = 0 then 1 / 9 else if 0 < F_PI * x + y then 0 else 2 / 9)"
  by (simp add: beentjes_f5_def spherical_to_xyz_eq sgn_c_real)

lemma bellet_f4_cases:
  "bellet_f4 theta phi =
     (case spherical_to_xyz theta phi of
        (x, y, z) \<Rightarrow> if x - 0.5 = 0 then 1 / 2 else if 0 < x - 0.5 then 1 else 0)"
  by (simp add: bellet_f4_def spherical_to_xyz_eq sgn_c_real)

text \<open>
  C2, as amended. The four sign-based entries are three-valued, not binary:
  \<open>fornberg_f4\<close>, \<open>beentjes_f4\<close> and \<open>beentjes_f5\<close> take their values in
  \<open>{0, 1/9, 2/9}\<close> and \<open>bellet_f4\<close> in \<open>{0, 1/2, 1}\<close>. The middle value is taken exactly
  where the argument of \<open>sgn\<close> is zero; where it is positive \<open>fornberg_f4\<close> is \<open>2/9\<close>,
  \<open>beentjes_f4\<close> and \<open>beentjes_f5\<close> are 0 and \<open>bellet_f4\<close> is 1; where it is negative
  \<open>fornberg_f4\<close> is 0, \<open>beentjes_f4\<close> and \<open>beentjes_f5\<close> are \<open>2/9\<close> and \<open>bellet_f4\<close> is 0.
\<close>

theorem sign_functions_three_valued:
  "fornberg_f4 theta phi \<in> {0, 1 / 9, 2 / 9}
   \<and> beentjes_f4 theta phi \<in> {0, 1 / 9, 2 / 9}
   \<and> beentjes_f5 theta phi \<in> {0, 1 / 9, 2 / 9}
   \<and> bellet_f4 theta phi \<in> {0, 1 / 2, 1}
   \<and> (case spherical_to_xyz theta phi of
        (x, y, z) \<Rightarrow>
          fornberg_f4 theta phi =
            (if - 9 * x - 9 * y + 9 * z = 0 then 1 / 9
             else if 0 < - 9 * x - 9 * y + 9 * z then 2 / 9 else 0)
          \<and> beentjes_f4 theta phi =
            (if x + y - z = 0 then 1 / 9 else if 0 < x + y - z then 0 else 2 / 9)
          \<and> beentjes_f5 theta phi =
            (if F_PI * x + y = 0 then 1 / 9 else if 0 < F_PI * x + y then 0 else 2 / 9)
          \<and> bellet_f4 theta phi =
            (if x - 0.5 = 0 then 1 / 2 else if 0 < x - 0.5 then 1 else 0))"
proof -
  obtain x y z where p: "spherical_to_xyz theta phi = (x, y, z)"
    by (cases "spherical_to_xyz theta phi") auto
  show ?thesis
    using fornberg_f4_cases [of theta phi] beentjes_f4_cases [of theta phi]
      beentjes_f5_cases [of theta phi] bellet_f4_cases [of theta phi]
      fornberg_f4_values [of theta phi] beentjes_f4_values [of theta phi]
      beentjes_f5_values [of theta phi] bellet_f4_values [of theta phi]
    by (simp only: p prod.case simp_thms)
qed


text \<open>
  C2, as stated, fails: \<open>beentjes_f5\<close> takes three different values, \<open>1/9\<close> at the pole
  \<open>\<theta> = 0\<close> (where \<open>F_PI \<cdot> x + y = 0\<close>), 0 at \<open>(\<pi>/2, 0)\<close> and \<open>2/9\<close> at \<open>(\<pi>/2, \<pi>)\<close>,
  and the last one is outside \<open>{0, 1/9}\<close>.
\<close>

theorem beentjes_f5_three_values:
  "beentjes_f5 0 0 = 1 / 9 \<and> beentjes_f5 (pi / 2) 0 = 0 \<and> beentjes_f5 (pi / 2) pi = 2 / 9
   \<and> beentjes_f5 (pi / 2) pi \<notin> {0, 1 / 9}"
  by (simp add: beentjes_f5_def spherical_to_xyz_eq sgn_c_real F_PI_def)

section \<open>Totality\<close>

lemma renka_f3_den: "6 \<le> 6 + 6 * (3 * x - 1) * (3 * x - (1::real))"
proof -
  have "0 \<le> (3 * x - 1) * (3 * x - 1)"
    by (rule zero_le_square)
  moreover have "6 + 6 * (3 * x - 1) * (3 * x - 1) = 6 + 6 * ((3 * x - 1) * (3 * x - 1))"
    by (simp only: mult.assoc)
  ultimately show ?thesis
    by linarith
qed

lemma renka_f3_value:
  "renka_f3 theta phi =
     (case spherical_to_xyz theta phi of
        (x, y, z) \<Rightarrow> Some \<bar>(1.25 + cos (5.4 * y)) * cos (6 * z) / (6 + 6 * (3 * x - 1) * (3 * x - 1))\<bar>)"
proof -
  have "6 + 6 * (3 * (sin theta * cos phi) - 1) * (3 * (sin theta * cos phi) - 1) \<noteq> 0"
    using renka_f3_den [of "sin theta * cos phi"] by linarith
  then show ?thesis
    by (simp add: renka_f3_def spherical_to_xyz_eq fdiv_def)
qed

lemma pow_c_two: "pow_c b 2 = Some (b * b)"
  by (simp add: pow_c_def power2_eq_square)

lemma renka_f4_value:
  "renka_f4 theta phi =
     (case spherical_to_xyz theta phi of
        (x, y, z) \<Rightarrow> Some (exp (- (81 / 16) * ((x - 0.5)\<^sup>2 + (y - 0.5)\<^sup>2 + (z - 0.5)\<^sup>2)) / 3))"
  by (simp add: renka_f4_def spherical_to_xyz_eq pow_c_two power2_eq_square)

lemma renka_f5_value:
  "renka_f5 theta phi =
     (case spherical_to_xyz theta phi of
        (x, y, z) \<Rightarrow> Some (exp (- (81 / 4) * ((x - 0.5)\<^sup>2 + (y - 0.5)\<^sup>2 + (z - 0.5)\<^sup>2)) / 3))"
  by (simp add: renka_f5_def spherical_to_xyz_eq pow_c_two power2_eq_square)

text \<open>
  C6. No entry of the catalogue has an error branch. The only quotient by a value that
  depends on the input is the one of \<open>renka_f3\<close>: its divisor \<open>6 + 6 (3x - 1)\<^sup>2\<close> is at least
  6, hence not zero, and \<open>renka_f3\<close> has a value at every pair of angles. The calls of
  \<open>std::pow\<close> in \<open>renka_f4\<close> and \<open>renka_f5\<close> have the integer exponent 2 and a value at every
  base. The remaining divisors are non-zero constants: numerals, \<open>F_PI\<close> and
  \<open>10000 \<cdot> 2 \<cdot> sqrt 2\<close>; every other operation (sum, product, \<open>sin\<close>, \<open>cos\<close>, \<open>tanh\<close>,
  \<open>exp\<close>, \<open>arctan\<close>, absolute value) is total on the reals.
\<close>

theorem catalogue_total:
  "(case spherical_to_xyz theta phi of
      (x, y, z) \<Rightarrow>
        6 \<le> 6 + 6 * (3 * x - 1) * (3 * x - 1)
        \<and> 6 + 6 * (3 * x - 1) * (3 * x - 1) \<noteq> 0
        \<and> renka_f3 theta phi
            = Some \<bar>(1.25 + cos (5.4 * y)) * cos (6 * z) / (6 + 6 * (3 * x - 1) * (3 * x - 1))\<bar>
        \<and> renka_f4 theta phi
            = Some (exp (- (81 / 16) * ((x - 0.5)\<^sup>2 + (y - 0.5)\<^sup>2 + (z - 0.5)\<^sup>2)) / 3)
        \<and> renka_f5 theta phi
            = Some (exp (- (81 / 4) * ((x - 0.5)\<^sup>2 + (y - 0.5)\<^sup>2 + (z - 0.5)\<^sup>2)) / 3))
   \<and> F_PI \<noteq> 0 \<and> 10000 * 2 * sqrt 2 \<noteq> (0::real)"
proof -
  obtain x y z where p: "spherical_to_xyz theta phi = (x, y, z)"
    by (cases "spherical_to_xyz theta phi") auto
  have d: "6 \<le> 6 + 6 * (3 * x - 1) * (3 * x - 1)"
    by (rule renka_f3_den)
  then have n: "6 + 6 * (3 * x - 1) * (3 * x - 1) \<noteq> 0"
    by linarith
  have c: "F_PI \<noteq> 0" "10000 * 2 * sqrt 2 \<noteq> (0::real)"
    by (simp_all add: F_PI_def)
  show ?thesis
    using d n c renka_f3_value [of theta phi] renka_f4_value [of theta phi]
      renka_f5_value [of theta phi]
    by (simp only: p prod.case simp_thms)
qed

section \<open>Dependence on the azimuth\<close>







subsection \<open>Periodicity\<close>

lemma spherical_to_xyz_periodic:
  "spherical_to_xyz theta (phi + 2 * pi) = spherical_to_xyz theta phi"
  by (simp add: spherical_to_xyz_eq)

lemma cos_2phi: "cos (2 * (phi + 2 * pi)) = cos (2 * phi)"
  using cos_shift [of "2 * phi" 2] by (simp add: algebra_simps)

lemma sin_2phi: "sin (2 * (phi + 2 * pi) - theta) = sin (2 * phi - theta)"
  using sin_shift [of "2 * phi - theta" 2] by (simp add: algebra_simps)

lemma sin_5phi: "sin (5 * (phi + 2 * pi)) = sin (5 * phi)"
  using sin_shift [of "5 * phi" 5] by (simp add: algebra_simps)

lemma cos_5phi: "cos (5 * (phi + 2 * pi)) = cos (5 * phi)"
  using cos_shift [of "5 * phi" 5] by (simp add: algebra_simps)

lemma cos_45phi: "cos (45 * theta + 45 * (phi + 2 * pi)) = cos (45 * theta + 45 * phi)"
  using cos_shift [of "45 * theta + 45 * phi" 45] by (simp add: algebra_simps)

lemma fornberg_f1_periodic: "fornberg_f1 theta (phi + 2 * pi) = fornberg_f1 theta phi"
  by (simp only: fornberg_f1_def spherical_to_xyz_periodic)

lemma fornberg_f4_periodic: "fornberg_f4 theta (phi + 2 * pi) = fornberg_f4 theta phi"
  by (simp only: fornberg_f4_def spherical_to_xyz_periodic)

lemma beentjes_f3_periodic: "beentjes_f3 theta (phi + 2 * pi) = beentjes_f3 theta phi"
  by (simp only: beentjes_f3_def spherical_to_xyz_periodic)

lemma beentjes_f4_periodic: "beentjes_f4 theta (phi + 2 * pi) = beentjes_f4 theta phi"
  by (simp only: beentjes_f4_def spherical_to_xyz_periodic)

lemma beentjes_f5_periodic: "beentjes_f5 theta (phi + 2 * pi) = beentjes_f5 theta phi"
  by (simp only: beentjes_f5_def spherical_to_xyz_periodic)

lemma renka_f3_periodic: "renka_f3 theta (phi + 2 * pi) = renka_f3 theta phi"
  by (simp only: renka_f3_def spherical_to_xyz_periodic)

lemma renka_f4_periodic: "renka_f4 theta (phi + 2 * pi) = renka_f4 theta phi"
  by (simp only: renka_f4_def spherical_to_xyz_periodic)

lemma renka_f5_periodic: "renka_f5 theta (phi + 2 * pi) = renka_f5 theta phi"
  by (simp only: renka_f5_def spherical_to_xyz_periodic)

lemma reegar_f3_periodic: "reegar_f3 theta (phi + 2 * pi) = reegar_f3 theta phi"
  by (simp only: reegar_f3_def spherical_to_xyz_periodic)

lemma bellet_f4_periodic: "bellet_f4 theta (phi + 2 * pi) = bellet_f4 theta phi"
  by (simp only: bellet_f4_def spherical_to_xyz_periodic)

lemma reegar_f2_periodic: "reegar_f2 theta (phi + 2 * pi) = reegar_f2 theta phi"
  by (simp only: reegar_f2_def spherical_to_xyz_periodic)

lemma reegar_f4_periodic: "reegar_f4 theta (phi + 2 * pi) = reegar_f4 theta phi"
  by (simp only: reegar_f4_def spherical_to_xyz_periodic)

lemma franke_periodic: "franke theta (phi + 2 * pi) = franke theta phi"
  by (simp only: franke_def spherical_to_xyz_periodic)

lemma cf_f1_periodic: "cf_f1 theta (phi + 2 * pi) = cf_f1 theta phi"
  by (simp only: cf_f1_def cos_2phi)

lemma cf_f2_periodic: "cf_f2 theta (phi + 2 * pi) = cf_f2 theta phi"
  by (simp only: cf_f2_def sin_2phi)

lemma cf_f3_periodic: "cf_f3 theta (phi + 2 * pi) = cf_f3 theta phi"
  by (simp only: cf_f3_def sin_5phi)

lemma cf_f4_periodic: "cf_f4 theta (phi + 2 * pi) = cf_f4 theta phi"
  by (simp only: cf_f4_def cos_5phi)

lemma cf_f5_periodic: "cf_f5 theta (phi + 2 * pi) = cf_f5 theta phi"
  by (simp only: cf_f5_def cos_45phi sin_periodic cos_periodic)

lemma cf_f6_periodic: "cf_f6 theta (phi + 2 * pi) = cf_f6 theta phi"
  by (simp only: cf_f6_def cos_2phi)

lemma cf_f7_periodic: "cf_f7 theta (phi + 2 * pi) = cf_f7 theta phi"
  by (simp only: cf_f7_def spherical_to_xyz_periodic)

lemma cf_f8_periodic: "cf_f8 theta (phi + 2 * pi) = cf_f8 theta phi"
  by (simp only: cf_f8_def spherical_to_xyz_periodic)

lemma cf_f9_periodic: "cf_f9 theta (phi + 2 * pi) = cf_f9 theta phi"
  by (simp only: cf_f9_def spherical_to_xyz_periodic)

lemma cf_f10_periodic: "cf_f10 theta (phi + 2 * pi) = cf_f10 theta phi"
  by (simp only: cf_f10_def spherical_to_xyz_periodic)

lemma cf_f11_periodic: "cf_f11 theta (phi + 2 * pi) = cf_f11 theta phi"
  by (simp only: cf_f11_def spherical_to_xyz_periodic)

lemma cf_f12_periodic: "cf_f12 theta (phi + 2 * pi) = cf_f12 theta phi"
  by (simp only: cf_f12_def spherical_to_xyz_periodic)

lemma cf_f13_periodic: "cf_f13 theta (phi + 2 * pi) = cf_f13 theta phi"
  by (simp only: cf_f13_def spherical_to_xyz_periodic)

lemma cf_f14_periodic: "cf_f14 theta (phi + 2 * pi) = cf_f14 theta phi"
  by (simp only: cf_f14_def spherical_to_xyz_periodic)

lemma cf_15_periodic: "cf_15 theta (phi + 2 * pi) = cf_15 theta phi"
  by (simp only: cf_15_def spherical_to_xyz_periodic)

text \<open>
  C9. Every function of the catalogue is \<open>2\<pi>\<close>-periodic in the azimuth:
  \<open>f \<theta> (\<phi> + 2\<pi>) = f \<theta> \<phi>\<close>. The entries that go through \<open>spherical_to_xyz\<close> inherit the
  period of the transform; \<open>cf_f1\<close> to \<open>cf_f6\<close> use \<open>\<phi>\<close> only inside \<open>sin\<close> and \<open>cos\<close> of
  \<open>\<phi>\<close>, \<open>2\<phi>\<close>, \<open>5\<phi>\<close> and \<open>45\<theta> + 45\<phi>\<close>.
\<close>

theorem catalogue_periodic:
  "spherical_to_xyz theta (phi + 2 * pi) = spherical_to_xyz theta phi
   \<and> fornberg_f1 theta (phi + 2 * pi) = fornberg_f1 theta phi
   \<and> fornberg_f4 theta (phi + 2 * pi) = fornberg_f4 theta phi
   \<and> beentjes_f3 theta (phi + 2 * pi) = beentjes_f3 theta phi
   \<and> beentjes_f4 theta (phi + 2 * pi) = beentjes_f4 theta phi
   \<and> beentjes_f5 theta (phi + 2 * pi) = beentjes_f5 theta phi
   \<and> renka_f3 theta (phi + 2 * pi) = renka_f3 theta phi
   \<and> renka_f4 theta (phi + 2 * pi) = renka_f4 theta phi
   \<and> renka_f5 theta (phi + 2 * pi) = renka_f5 theta phi
   \<and> reegar_f3 theta (phi + 2 * pi) = reegar_f3 theta phi
   \<and> bellet_f4 theta (phi + 2 * pi) = bellet_f4 theta phi
   \<and> reegar_f2 theta (phi + 2 * pi) = reegar_f2 theta phi
   \<and> reegar_f4 theta (phi + 2 * pi) = reegar_f4 theta phi
   \<and> franke theta (phi + 2 * pi) = franke theta phi
   \<and> cf_f1 theta (phi + 2 * pi) = cf_f1 theta phi
   \<and> cf_f2 theta (phi + 2 * pi) = cf_f2 theta phi
   \<and> cf_f3 theta (phi + 2 * pi) = cf_f3 theta phi
   \<and> cf_f4 theta (phi + 2 * pi) = cf_f4 theta phi
   \<and> cf_f5 theta (phi + 2 * pi) = cf_f5 theta phi
   \<and> cf_f6 theta (phi + 2 * pi) = cf_f6 theta phi
   \<and> cf_f7 theta (phi + 2 * pi) = cf_f7 theta phi
   \<and> cf_f8 theta (phi + 2 * pi) = cf_f8 theta phi
   \<and> cf_f9 theta (phi + 2 * pi) = cf_f9 theta phi
   \<and> cf_f10 theta (phi + 2 * pi) = cf_f10 theta phi
   \<and> cf_f11 theta (phi + 2 * pi) = cf_f11 theta phi
   \<and> cf_f12 theta (phi + 2 * pi) = cf_f12 theta phi
   \<and> cf_f13 theta (phi + 2 * pi) = cf_f13 theta phi
   \<and> cf_f14 theta (phi + 2 * pi) = cf_f14 theta phi
   \<and> cf_15 theta (phi + 2 * pi) = cf_15 theta phi"
  by (simp only: spherical_to_xyz_periodic fornberg_f1_periodic fornberg_f4_periodic
      beentjes_f3_periodic beentjes_f4_periodic beentjes_f5_periodic renka_f3_periodic
      renka_f4_periodic renka_f5_periodic reegar_f3_periodic bellet_f4_periodic
      reegar_f2_periodic reegar_f4_periodic franke_periodic cf_f1_periodic cf_f2_periodic
      cf_f3_periodic cf_f4_periodic cf_f5_periodic cf_f6_periodic cf_f7_periodic
      cf_f8_periodic cf_f9_periodic cf_f10_periodic cf_f11_periodic cf_f12_periodic
      cf_f13_periodic cf_f14_periodic cf_15_periodic simp_thms)

section \<open>The Franke function\<close>

lemma gaussian3_eq:
  "gaussian3 (ax, ay, az) (cx, cy, cz) (u, v, w)
   = exp (- (ax * (u - cx)\<^sup>2 + ay * (v - cy)\<^sup>2 + az * (w - cz)\<^sup>2))"
  by (simp add: gaussian3_def)

lemma franke_second_exponent:
  fixes x y z :: real
  shows "- (9 * x + 1) * (9 * x + 1) / 49 - (9 * y + 1) / 10 - (9 * z + 1) / 10
         = 16541 / 9800
           + - (2 / 49 * (9 * x - (- 1 / 2))\<^sup>2 + 1 / 49 * (9 * y - (- 49 / 20))\<^sup>2
                + 1 / 49 * (9 * z - (- 49 / 20))\<^sup>2)
           + 81 / 49 * (x\<^sup>2 + y\<^sup>2 + z\<^sup>2 - 1)"
  by (simp add: power2_eq_square field_simps)

lemma franke_second_term:
  fixes x y z :: real
  assumes "x\<^sup>2 + y\<^sup>2 + z\<^sup>2 = 1"
  shows "exp (- (9 * x + 1) * (9 * x + 1) / 49 - (9 * y + 1) / 10 - (9 * z + 1) / 10)
         = exp (16541 / 9800)
           * gaussian3 (2 / 49, 1 / 49, 1 / 49) (- 1 / 2, - 49 / 20, - 49 / 20) (9 * x, 9 * y, 9 * z)"
proof -
  have "- (9 * x + 1) * (9 * x + 1) / 49 - (9 * y + 1) / 10 - (9 * z + 1) / 10
        = 16541 / 9800
          + - (2 / 49 * (9 * x - (- 1 / 2))\<^sup>2 + 1 / 49 * (9 * y - (- 49 / 20))\<^sup>2
               + 1 / 49 * (9 * z - (- 49 / 20))\<^sup>2)"
    using franke_second_exponent [of x y z] by (simp only: assms diff_self mult_zero_right add_0_right)
  then show ?thesis
    by (simp only: gaussian3_eq exp_add)
qed

lemma franke_first_term:
  fixes x y z :: real
  shows "exp (- (9 * x - cx) * (9 * x - cx) / 4 - (9 * y - cy) * (9 * y - cy) / 4
              - (9 * z - cz) * (9 * z - cz) / 4)
         = gaussian3 (1 / 4, 1 / 4, 1 / 4) (cx, cy, cz) (9 * x, 9 * y, 9 * z)"
  by (simp add: gaussian3_eq power2_eq_square field_simps)

lemma franke_fourth_term:
  fixes x y z :: real
  shows "exp (- (9 * x - cx) * (9 * x - cx) - (9 * y - cy) * (9 * y - cy)
              - (9 * z - cz) * (9 * z - cz))
         = gaussian3 (1, 1, 1) (cx, cy, cz) (9 * x, 9 * y, 9 * z)"
  by (simp add: gaussian3_eq power2_eq_square field_simps)

text \<open>
  C3. \<open>franke \<theta> \<phi>\<close> is a sum of four weighted Gaussian terms in the coordinates scaled
  by 9, each centred at a fixed point and with positive widths. The first, third and
  fourth term are written in this shape in the source, with centres \<open>(2, 2, 2)\<close>,
  \<open>(7, 3, 5)\<close> and \<open>(4, 7, 5)\<close> and weights \<open>0.75\<close>, \<open>0.5\<close> and \<open>-0.2\<close>. The second term is
  written \<open>0.75 \<cdot> exp (- (9x + 1)\<^sup>2 / 49 - (9y + 1) / 10 - (9z + 1) / 10)\<close>, with an exponent
  that is linear in \<open>y\<close> and \<open>z\<close>; on the unit sphere, where \<open>(9x)\<^sup>2 + (9y)\<^sup>2 + (9z)\<^sup>2 = 81\<close>, it
  is the Gaussian of widths \<open>(2/49, 1/49, 1/49)\<close> centred at \<open>(-1/2, -49/20, -49/20)\<close> with
  weight \<open>0.75 \<cdot> exp (16541/9800)\<close>.
\<close>

theorem franke_gaussians:
  "franke theta phi =
     (case spherical_to_xyz theta phi of
        (x, y, z) \<Rightarrow>
          0.75 * gaussian3 (1 / 4, 1 / 4, 1 / 4) (2, 2, 2) (9 * x, 9 * y, 9 * z)
          + 0.75 * exp (16541 / 9800)
              * gaussian3 (2 / 49, 1 / 49, 1 / 49) (- 1 / 2, - 49 / 20, - 49 / 20)
                  (9 * x, 9 * y, 9 * z)
          + 0.5 * gaussian3 (1 / 4, 1 / 4, 1 / 4) (7, 3, 5) (9 * x, 9 * y, 9 * z)
          - 0.2 * gaussian3 (1, 1, 1) (4, 7, 5) (9 * x, 9 * y, 9 * z))"
proof -
  have s: "(sin theta * cos phi)\<^sup>2 + (sin theta * sin phi)\<^sup>2 + (cos theta)\<^sup>2 = 1"
    by (rule unit_sphere)
  show ?thesis
    unfolding franke_def spherical_to_xyz_eq Let_def prod.case
    by (simp only: franke_first_term franke_second_term [OF s] franke_fourth_term mult.assoc)
qed

end
